theory Spec2Isabelle
  imports Complex_Main
begin

section \<open>The Flappy Bird component (src/FlappyBird.jsx)\<close>

text \<open>
  The component keeps its game state in React refs, three pieces of React state
  (\<open>score\<close>, \<open>best\<close>, \<open>showHelp\<close>) and one \<open>localStorage\<close> entry. The embedding
  threads one record through the component's functions; every function of the source
  is a HOL function of the same name that returns the updated record.

  JavaScript numbers are modelled as exact reals. The score, which the code only ever
  sets to 0 or increments by 1, is a natural number. Canvas drawing and the resizing of
  the canvas write pixels and styles only and are left out; everything \<open>draw\<close> and
  \<open>loop\<close> do to the refs, the React state and the storage is kept. The canvas exists
  as long as the component is mounted, so the early return of line 264 is never taken.
\<close>

subsection \<open>Configuration (lines 31-43)\<close>

record config =
  w :: real
  h :: real
  groundH :: real
  gravity :: real
  jump :: real
  pipeGap :: real
  pipeW :: real
  pipeSpeed :: real
  spawnEvery :: real
  birdX :: real
  birdR :: real

definition cfg :: config where
  "cfg = \<lparr> w = 360, h = 640, groundH = 80, gravity = 1800, jump = - 420,
           pipeGap = 160, pipeW = 70, pipeSpeed = 150, spawnEvery = 1400,
           birdX = 90, birdR = 14 \<rparr>"

subsection \<open>State\<close>

record pipe =
  x :: real
  topH :: real

text \<open>
  The refs keep the names of the source without the suffix \<open>Ref\<close>, except
  \<open>scoreRef\<close>, which has to differ from the React state \<open>score\<close>. \<open>rafRef\<close> holds
  the last handle that \<open>requestAnimationFrame\<close> returned; 0 stands for \<open>null\<close>, and
  handles are positive. \<open>flappy_best\<close> is the \<open>localStorage\<close> entry of that key.

  Two fields belong to the browser and to React rather than to a ref. \<open>pending\<close> is the
  browser's list of animation-frame callbacks not run yet. Every callback the component
  registers is \<open>loop\<close>; the \<open>loop\<close> of two renders differ only in the value of
  \<open>best\<close> that its \<open>draw\<close> closes over (line 199), so a callback is represented by that
  value. \<open>mountBest\<close> is the value of \<open>best\<close> in the first render: the key handler is
  registered once, by the effect with the empty dependency list (lines 306-331), and
  forever calls the functions of the first render.
\<close>

record game =
  lastSpawn :: real
  lastTime :: real
  gameStarted :: bool
  paused :: bool
  gameOver :: bool
  birdY :: real
  birdVY :: real
  pipes :: "pipe list"
  scoreRef :: nat
  passedPipeIndex :: int
  rafRef :: nat
  score :: nat
  best :: real
  showHelp :: bool
  flappy_best :: "string option"
  pending :: "real list"
  mountBest :: real

subsection \<open>Loading the best score (lines 24-27)\<close>

text \<open>
  \<open>Number\<close> yields a double: a finite number, an infinity or NaN. The conversion of a
  string is the language's, not the component's, and is a parameter \<open>num\<close> of the
  model. \<open>getItem\<close> returns \<open>null\<close> (\<open>None\<close>) or a string; \<open>null\<close> and the empty
  string are falsy, so \<open>||\<close> replaces them by 0.

  The access to the storage can also fail: where the browser denies it,
  \<open>localStorage.getItem\<close> throws a \<open>SecurityError\<close>. The outcome of the access is
  therefore a sum, \<open>Inl\<close> the exception thrown and \<open>Inr\<close> the value returned. The
  initializer has no \<open>try\<close>, so an exception leaves it as it came.
\<close>

datatype fault = SecurityError

datatype jsnum = Fin real | PosInf | NegInf | NaN

fun isFinite :: "jsnum \<Rightarrow> bool" where
  "isFinite (Fin v) = True"
| "isFinite PosInf = False"
| "isFinite NegInf = False"
| "isFinite NaN = False"

text \<open>Lines 25-26 on the value that \<open>getItem\<close> returned.\<close>

definition bestOfItem :: "(string \<Rightarrow> jsnum) \<Rightarrow> string option \<Rightarrow> jsnum" where
  "bestOfItem num item =
     (let v = (case item of
                 None \<Rightarrow> Fin 0
               | Some str \<Rightarrow> if str = [] then Fin 0 else num str)
      in if isFinite v then v else Fin 0)"

text \<open>The initializer of \<open>best\<close>, lines 24-27, on the outcome of \<open>getItem\<close>.\<close>

definition bestInit :: "(string \<Rightarrow> jsnum) \<Rightarrow> fault + string option \<Rightarrow> fault + jsnum" where
  "bestInit num got =
     (case got of
        Inl e \<Rightarrow> Inl e
      | Inr item \<Rightarrow> Inr (bestOfItem num item))"

fun finiteValue :: "jsnum \<Rightarrow> real" where
  "finiteValue (Fin v) = v"
| "finiteValue PosInf = 0"
| "finiteValue NegInf = 0"
| "finiteValue NaN = 0"

subsection \<open>Helpers (lines 46-131)\<close>

definition resetGame :: "config \<Rightarrow> game \<Rightarrow> game" where
  "resetGame c s =
     s\<lparr> birdY := h c / 2, birdVY := 0, pipes := [], scoreRef := 0, score := 0,
        passedPipeIndex := 0, lastSpawn := 0, lastTime := 0,
        gameOver := False, gameStarted := False \<rparr>"

definition flap :: "config \<Rightarrow> game \<Rightarrow> game" where
  "flap c s =
     (let s1 = (if \<not> gameStarted s
                then s\<lparr> gameStarted := True, paused := False, showHelp := False \<rparr>
                else s)
      in if gameOver s1 then s1 else s1\<lparr> birdVY := jump c \<rparr>)"

text \<open>
  \<open>rafRef.current = requestAnimationFrame(loop)\<close>, for the \<open>loop\<close> that sees \<open>b\<close> as
  \<open>best\<close>. The browser returns a positive handle; the model numbers the requests.
\<close>

definition requestLoop :: "real \<Rightarrow> game \<Rightarrow> game" where
  "requestLoop b s = s\<lparr> pending := pending s @ [b], rafRef := Suc (rafRef s) \<rparr>"

definition togglePause :: "real \<Rightarrow> game \<Rightarrow> game" where
  "togglePause b s =
     (if \<not> gameStarted s \<or> gameOver s then s
      else let s1 = s\<lparr> paused := \<not> paused s \<rparr>
           in if \<not> paused s1 then requestLoop b (s1\<lparr> lastTime := 0 \<rparr>) else s1)"

text \<open>\<open>r\<close> is the value \<open>Math.random()\<close> returns, a number in \<open>[0, 1)\<close>.\<close>

definition spawnPipe :: "config \<Rightarrow> real \<Rightarrow> real \<Rightarrow> game \<Rightarrow> game" where
  "spawnPipe c canvasH r s =
     (let minTop = 60;
          maxTop = canvasH - groundH c - pipeGap c - 60;
          tH = minTop + r * (maxTop - minTop)
      in s\<lparr> pipes := pipes s @ [\<lparr> x = w c + 40, topH = tH \<rparr>] \<rparr>)"

definition circleRect :: "real \<Rightarrow> real \<Rightarrow> real \<Rightarrow> real \<Rightarrow> real \<Rightarrow> real \<Rightarrow> real \<Rightarrow> bool" where
  "circleRect cx cy cr rx ry rw rh =
     (let nx = max rx (min cx (rx + rw));
          ny = max ry (min cy (ry + rh));
          dx = cx - nx;
          dy = cy - ny
      in dx * dx + dy * dy \<le> cr * cr)"

definition collides :: "config \<Rightarrow> real \<Rightarrow> real \<Rightarrow> real \<Rightarrow> pipe \<Rightarrow> bool" where
  "collides c bx bY r p =
     (circleRect bx bY r (x p) 0 (pipeW c) (topH p) \<or>
      circleRect bx bY r (x p) (topH p + pipeGap c) (pipeW c)
        (h c - groundH c - (topH p + pipeGap c)))"

subsection \<open>The update of \<open>draw\<close> (lines 145-204), block by block\<close>

text \<open>Bird physics, lines 147-148.\<close>

definition physics :: "config \<Rightarrow> real \<Rightarrow> game \<Rightarrow> game" where
  "physics c dt s =
     (let s1 = s\<lparr> birdVY := birdVY s + gravity c * dt \<rparr>
      in s1\<lparr> birdY := birdY s1 + birdVY s1 * dt \<rparr>)"

text \<open>Pipes movement, line 151.\<close>

definition movePipes :: "config \<Rightarrow> real \<Rightarrow> game \<Rightarrow> game" where
  "movePipes c dt s =
     s\<lparr> pipes := map (\<lambda>p. p\<lparr> x := x p - pipeSpeed c * dt \<rparr>) (pipes s) \<rparr>"

text \<open>Spawn pipes, lines 154-158.\<close>

definition spawnStep :: "config \<Rightarrow> real \<Rightarrow> real \<Rightarrow> game \<Rightarrow> game" where
  "spawnStep c dt r s =
     (let s1 = s\<lparr> lastSpawn := lastSpawn s + dt * 1000 \<rparr>
      in if lastSpawn s1 \<ge> spawnEvery c
         then spawnPipe c (h c) r (s1\<lparr> lastSpawn := 0 \<rparr>)
         else s1)"

text \<open>
  Remove off-screen pipes, lines 161-164: the \<open>while\<close> loop, on the list of pipes and
  the counter it decrements.
\<close>

fun pruneLoop :: "config \<Rightarrow> pipe list \<Rightarrow> int \<Rightarrow> pipe list \<times> int" where
  "pruneLoop c [] k = ([], k)"
| "pruneLoop c (p # ps) k =
     (if x p + pipeW c < 0 then pruneLoop c ps (max 0 (k - 1)) else (p # ps, k))"

definition prune :: "config \<Rightarrow> game \<Rightarrow> game" where
  "prune c s =
     (case pruneLoop c (pipes s) (passedPipeIndex s) of
        (ps, k) \<Rightarrow> s\<lparr> pipes := ps, passedPipeIndex := k \<rparr>)"

text \<open>Scoring, lines 167-180.\<close>

definition scoring :: "config \<Rightarrow> game \<Rightarrow> game" where
  "scoring c s =
     (case pipes s of
        [] \<Rightarrow> s
      | first # rest \<Rightarrow>
          let s1 = (if birdX c > x first + pipeW c \<and> passedPipeIndex s = 0
                    then s\<lparr> scoreRef := scoreRef s + 1, score := scoreRef s + 1,
                            passedPipeIndex := 1 \<rparr>
                    else s)
          in if x first + pipeW c < birdX c - birdR c
             then s1\<lparr> passedPipeIndex := 0 \<rparr> else s1)"

text \<open>Collisions with ground and ceiling, lines 183-188, and with pipes, lines 190-195.\<close>

definition boundsCollision :: "config \<Rightarrow> game \<Rightarrow> game" where
  "boundsCollision c s =
     (if birdY s + birdR c \<ge> h c - groundH c \<or> birdY s - birdR c \<le> 0
      then s\<lparr> gameOver := True \<rparr> else s)"

definition pipeCollision :: "config \<Rightarrow> game \<Rightarrow> game" where
  "pipeCollision c s =
     (if list_ex (collides c (birdX c) (birdY s) (birdR c)) (pipes s)
      then s\<lparr> gameOver := True \<rparr> else s)"

text \<open>
  Update best, lines 197-203. \<open>b\<close> is the \<open>best\<close> of the render whose \<open>draw\<close> runs;
  \<open>setBest\<close> writes the React state, which the next render reads. \<open>digitsOf\<close> is
  \<open>String\<close> on a natural number: its decimal digits.
\<close>

fun digitsOf :: "nat \<Rightarrow> string" where
  "digitsOf n =
     (if n < 10 then [''0123456789'' ! n]
      else digitsOf (n div 10) @ [''0123456789'' ! (n mod 10)])"

declare digitsOf.simps [simp del]

definition updateBest :: "real \<Rightarrow> game \<Rightarrow> game" where
  "updateBest b s =
     (if gameOver s
      then (if real (scoreRef s) > b
            then s\<lparr> best := real (scoreRef s),
                    flappy_best := Some (digitsOf (scoreRef s)) \<rparr>
            else s)
      else s)"

definition draw :: "real \<Rightarrow> config \<Rightarrow> real \<Rightarrow> real \<Rightarrow> game \<Rightarrow> game" where
  "draw b c dt r s =
     (if gameStarted s \<and> \<not> paused s \<and> \<not> gameOver s
      then let s1 = physics c dt s;
               s2 = movePipes c dt s1;
               s3 = spawnStep c dt r s2;
               s4 = prune c s3;
               s5 = scoring c s4;
               s6 = boundsCollision c s5;
               s7 = pipeCollision c s6
           in updateBest b s7
      else s)"

subsection \<open>The frame callback (lines 262-303)\<close>

definition frameDt :: "real \<Rightarrow> game \<Rightarrow> real" where
  "frameDt ts s = (if lastTime s \<noteq> 0 then min 0.033 ((ts - lastTime s) / 1000) else 0)"

definition loop :: "real \<Rightarrow> config \<Rightarrow> real \<Rightarrow> real \<Rightarrow> game \<Rightarrow> game" where
  "loop b c ts r s =
     (if paused s then s
      else let dt = frameDt ts s;
               s1 = draw b c dt r (s\<lparr> lastTime := ts \<rparr>)
           in if \<not> gameOver s1 then requestLoop b s1 else s1)"

subsection \<open>Events: the frame driver and the input handlers (lines 71-76, 306-336)\<close>

text \<open>
  An animation frame runs the callbacks registered before it, in the order of their
  registration, all with the frame's timestamp; a callback registered meanwhile waits
  for the next frame. \<open>rnd i\<close> is what \<open>Math.random()\<close> returns if callback number \<open>i\<close>
  of the frame calls it.
\<close>

fun runCallbacks :: "config \<Rightarrow> real \<Rightarrow> (nat \<Rightarrow> real) \<Rightarrow> nat \<Rightarrow> real list \<Rightarrow> game \<Rightarrow> game" where
  "runCallbacks c ts rnd i [] s = s"
| "runCallbacks c ts rnd i (b # bs) s = runCallbacks c ts rnd (Suc i) bs (loop b c ts (rnd i) s)"

definition frame :: "config \<Rightarrow> real \<Rightarrow> (nat \<Rightarrow> real) \<Rightarrow> game \<Rightarrow> game" where
  "frame c ts rnd s = runCallbacks c ts rnd 0 (pending s) (s\<lparr> pending := [] \<rparr>)"

text \<open>
  The keys are handled by \<open>onKey\<close> of the first render, whose \<open>loop\<close> sees
  \<open>mountBest\<close>; \<open>KeySpace\<close> stands for Space and for ArrowUp. Pointer presses and the two buttons are handled by the functions of
  the latest render, whose \<open>loop\<close> sees the current \<open>best\<close>. A mouse click on a
  button is a \<open>PointerDown\<close>, which bubbles to the wrapper, followed by the click.
\<close>

datatype event =
    KeySpace
  | KeyP
  | KeyR
  | PointerDown
  | ClickRestart
  | ClickPause
  | Frame real "nat \<Rightarrow> real"

fun handle :: "config \<Rightarrow> event \<Rightarrow> game \<Rightarrow> game" where
  "handle c KeySpace s =
     (let s1 = flap c s
      in if rafRef s1 = 0 \<and> \<not> paused s1 then requestLoop (mountBest s1) s1 else s1)"
| "handle c KeyP s = togglePause (mountBest s) s"
| "handle c KeyR s = requestLoop (mountBest s) (resetGame c s)"
| "handle c PointerDown s =
     (let s1 = flap c s
      in if rafRef s1 = 0 \<and> \<not> paused s1 then requestLoop (best s1) s1 else s1)"
| "handle c ClickRestart s = requestLoop (best s) (resetGame c s)"
| "handle c ClickPause s = togglePause (best s) s"
| "handle c (Frame ts rnd) s = frame c ts rnd s"

text \<open>
  Mounting: the initial values of the refs and of the React state (lines 8-28), then the
  effect (lines 322-324). \<open>mount\<close> is the mounting over a storage that can be read and
  holds \<open>item\<close>; \<open>mountComponent\<close> is the mounting on any outcome of \<open>getItem\<close>: the
  exception of a failed access leaves the first render, and there is no component.
\<close>

definition mount :: "config \<Rightarrow> (string \<Rightarrow> jsnum) \<Rightarrow> string option \<Rightarrow> game" where
  "mount c num item =
     (let b0 = finiteValue (bestOfItem num item);
          s0 = \<lparr> lastSpawn = 0, lastTime = 0, gameStarted = False, paused = False,
                 gameOver = False, birdY = 0, birdVY = 0, pipes = [], scoreRef = 0,
                 passedPipeIndex = 0, rafRef = 0, score = 0, best = b0, showHelp = True,
                 flappy_best = item, pending = [], mountBest = b0 \<rparr>
      in requestLoop b0 (resetGame c s0))"

definition mountComponent :: "config \<Rightarrow> (string \<Rightarrow> jsnum) \<Rightarrow> fault + string option \<Rightarrow> fault + game" where
  "mountComponent c num got =
     (case got of
        Inl e \<Rightarrow> Inl e
      | Inr item \<Rightarrow> Inr (mount c num item))"

definition session :: "config \<Rightarrow> (string \<Rightarrow> jsnum) \<Rightarrow> string option \<Rightarrow> event list \<Rightarrow> game" where
  "session c num item es = fold (handle c) es (mount c num item)"

subsection \<open>Sessions\<close>

text \<open>
  A state is reachable when a session produces it: mounting the component, for any
  content of the storage, followed by any events.
\<close>

inductive reach :: "game \<Rightarrow> bool" where
  reach_mount: "reach (mount cfg num item)"
| reach_handle: "reach s \<Longrightarrow> reach (handle cfg e s)"

text \<open>
  In every reachable state: a game that is over was started and is not paused; a frame
  callback has been requested at least once, so \<open>rafRef\<close> is not \<open>null\<close>; the spawn
  accumulator is below the spawn interval; and the first pipe, if any, is not off-screen.
\<close>

definition sessionInv :: "game \<Rightarrow> bool" where
  "sessionInv s \<longleftrightarrow>
     (gameOver s \<longrightarrow> gameStarted s \<and> \<not> paused s) \<and> rafRef s \<noteq> 0 \<and>
     lastSpawn s < spawnEvery cfg \<and>
     (case pipes s of [] \<Rightarrow> True | p # ps \<Rightarrow> \<not> x p + pipeW cfg < 0)"

text \<open>
  Sessions to run the component on. \<open>frames t n\<close> are \<open>n\<close> animation frames 33 ms
  apart, the first at \<open>t + 33\<close>; every random draw in them is 1/2, which puts the gap of
  a pipe between 200 and 360. \<open>play t k\<close> presses Space \<open>k\<close> times, 13 frames after
  each press, which keeps the bird between 260 and 320.
\<close>

fun frames :: "real \<Rightarrow> nat \<Rightarrow> event list" where
  "frames t n =
     (if n = 0 then [] else Frame (t + 33) (\<lambda>i. 1 / 2) # frames (t + 33) (n - 1))"

fun play :: "real \<Rightarrow> nat \<Rightarrow> event list" where
  "play t k = (if k = 0 then [] else KeySpace # frames t 13 @ play (t + 429) (k - 1))"

declare frames.simps [simp del] play.simps [simp del]

text \<open>
  \<open>warmup\<close>: the first frame after mounting, then nine presses. It ends at time 4861
  with the first pipe about to pass the bird. \<open>firstRun\<close> goes on with a tenth press and
  then lets the bird fall to the ground. \<open>secondRun\<close> restarts with the key R, plays
  the same nine presses and lets the bird fall at once; \<open>secondRunByButton\<close> is the
  same run, restarted with the button.
\<close>

definition warmup :: "event list" where
  "warmup = Frame 1000 (\<lambda>i. 1 / 2) # play 1000 9"

definition firstRun :: "event list" where
  "firstRun = warmup @ KeySpace # frames 4861 24"

definition secondRun :: "event list" where
  "secondRun = KeyR # Frame 5686 (\<lambda>i. 1 / 2) # play 5686 9 @ frames 9547 3"

definition secondRunByButton :: "event list" where
  "secondRunByButton = ClickRestart # Frame 5686 (\<lambda>i. 1 / 2) # play 5686 9 @ frames 9547 3"

text \<open>The states these sessions pass through, written out.\<close>

definition afterWarmup :: game where
  "afterWarmup =
     \<lparr> lastSpawn = 1023, lastTime = 4861, gameStarted = True, paused = False,
       gameOver = False, birdY = 1518919 / 5000, birdVY = 1761 / 5,
       pipes = [\<lparr> x = 337 / 10, topH = 200 \<rparr>, \<lparr> x = 4931 / 20, topH = 200 \<rparr>],
       scoreRef = 0, passedPipeIndex = 0, rafRef = 119, score = 0, best = 0,
       showHelp = False, flappy_best = None, pending = [0], mountBest = 0 \<rparr>"

definition afterFirstRun :: game where
  "afterFirstRun =
     \<lparr> lastSpawn = 396, lastTime = 5653, gameStarted = True, paused = False,
       gameOver = True, birdY = 2796019 / 5000, birdVY = 5028 / 5,
       pipes = [\<lparr> x = 511 / 4, topH = 200 \<rparr>, \<lparr> x = 1703 / 5, topH = 200 \<rparr>],
       scoreRef = 15, passedPipeIndex = 0, rafRef = 142, score = 15, best = 15,
       showHelp = False, flappy_best = Some ''15'', pending = [], mountBest = 0 \<rparr>"

definition afterSecondRun :: game where
  "afterSecondRun =
     \<lparr> lastSpawn = 1122, lastTime = 9646, gameStarted = True, paused = False,
       gameOver = True, birdY = 219008 / 625, birdVY = 2652 / 5,
       pipes = [\<lparr> x = 377 / 20, topH = 200 \<rparr>, \<lparr> x = 2317 / 10, topH = 200 \<rparr>],
       scoreRef = 1, passedPipeIndex = 1, rafRef = 263, score = 1, best = 1,
       showHelp = False, flappy_best = Some ''1'', pending = [], mountBest = 0 \<rparr>"

section \<open>Properties\<close>

subsection \<open>Physics: two half steps against one full step\<close>

lemma physics_fields:
  "birdVY (physics c dt s) = birdVY s + gravity c * dt"
  "birdY (physics c dt s) = birdY s + (birdVY s + gravity c * dt) * dt"
  "pipes (physics c dt s) = pipes s"
  "lastSpawn (physics c dt s) = lastSpawn s"
  "passedPipeIndex (physics c dt s) = passedPipeIndex s"
  by (simp_all add: physics_def)

lemma mount_fields:
  "birdY (mount c num item) = h c / 2"
  "birdVY (mount c num item) = 0"
  "pipes (mount c num item) = []"
  "lastTime (mount c num item) = 0"
  "lastSpawn (mount c num item) = 0"
  "gameStarted (mount c num item) = False"
  "gameOver (mount c num item) = False"
  "paused (mount c num item) = False"
  "rafRef (mount c num item) = 1"
  by (simp_all add: mount_def resetGame_def requestLoop_def Let_def)

text \<open>
  C3, as the code has it. The integration step of lines 147-148 adds the new velocity
  times \<open>dt\<close> to the position, so it is of first order only: two steps of \<open>dt / 2\<close> reach
  the velocity of one step of \<open>dt\<close>, and a position that lies above it by exactly
  \<open>gravity * dt\<^sup>2 / 4\<close>. The positions agree only where \<open>gravity * dt\<^sup>2 = 0\<close>.
\<close>

theorem physics_half_steps:
  "birdVY (physics c (dt / 2) (physics c (dt / 2) s)) = birdVY (physics c dt s) \<and>
   birdY (physics c (dt / 2) (physics c (dt / 2) s))
     = birdY (physics c dt s) - gravity c * dt * dt / 4"
  by (simp add: physics_fields algebra_simps)

text \<open>
  C3, as the spec states it, fails. At \<open>dt = 1/32\<close> seconds (below the cap of 0.033),
  from the state after mounting (position 320, velocity 0) and with the gravity of the
  component, the two positions are 225/512 of a pixel apart. All values involved are
  small multiples of a power of two, so doubles compute them without rounding.
\<close>

theorem physics_half_steps_counterexample:
  "\<bar>birdY (physics cfg (1 / 64) (physics cfg (1 / 64) (mount cfg (\<lambda>str. NaN) None)))
     - birdY (physics cfg (1 / 32) (mount cfg (\<lambda>str. NaN) None))\<bar> = 225 / 512"
  by (simp add: physics_fields mount_fields cfg_def)

subsection \<open>Spawning\<close>

lemma spawnPipe_bounds:
  assumes "0 \<le> r" and "r < 1" and "60 \<le> canvasH - groundH c - pipeGap c - 60"
  shows "\<exists>p. pipes (spawnPipe c canvasH r s) = pipes s @ [p] \<and> x p = w c + 40
           \<and> 60 \<le> topH p \<and> topH p + pipeGap c \<le> canvasH - groundH c - 60"
proof -
  let ?d = "canvasH - groundH c - pipeGap c - 60 - 60"
  have d: "0 \<le> ?d" using assms(3) by simp
  have lo: "0 \<le> r * ?d" using assms(1) d by simp
  have "r * ?d \<le> 1 * ?d" using assms(2) d by (intro mult_right_mono) simp_all
  then have hi: "r * ?d \<le> ?d" by simp
  show ?thesis
    using lo hi by (simp add: spawnPipe_def Let_def)
qed

text \<open>
  C4. \<open>draw\<close> calls \<open>spawnPipe\<close> with the height of the field (line 157). For every
  draw \<open>r\<close> in \<open>[0, 1)\<close> the call appends one pipe, whose gap starts at least 60 px
  below the top of the field and ends at least 60 px above the ground band.
\<close>

theorem spawnPipe_gap_within_margins:
  assumes "0 \<le> r" and "r < 1"
  shows "\<exists>p. pipes (spawnPipe cfg (h cfg) r s) = pipes s @ [p]
           \<and> 60 \<le> topH p
           \<and> topH p + pipeGap cfg \<le> h cfg - groundH cfg - 60"
proof -
  have "60 \<le> h cfg - groundH cfg - pipeGap cfg - 60" by (simp add: cfg_def)
  from spawnPipe_bounds [OF assms this] show ?thesis by blast
qed

theorem spawnPipe_gap_within_margins_witness:
  "(0::real) \<le> 1 / 2 \<and> (1 / 2 :: real) < 1 \<and>
   (\<exists>p. pipes (spawnPipe cfg (h cfg) (1 / 2) (mount cfg (\<lambda>str. NaN) None))
            = pipes (mount cfg (\<lambda>str. NaN) None) @ [p]
        \<and> 60 \<le> topH p \<and> topH p + pipeGap cfg \<le> h cfg - groundH cfg - 60)"
  using spawnPipe_gap_within_margins [of "1 / 2" "mount cfg (\<lambda>str. NaN) None"] by simp

subsection \<open>Loading the best score\<close>

lemma bestOfItem_finite:
  "\<exists>v. bestOfItem num item = Fin v
      \<and> (item = None \<longrightarrow> v = 0)
      \<and> (\<forall>str. item = Some str \<longrightarrow> \<not> isFinite (num str) \<longrightarrow> v = 0)
      \<and> (\<forall>str u. item = Some str \<longrightarrow> str \<noteq> [] \<longrightarrow> num str = Fin u \<longrightarrow> v = u)"
proof (cases item)
  case None
  then show ?thesis by (simp add: bestOfItem_def)
next
  case (Some str)
  then show ?thesis
    by (cases "num str") (auto simp: bestOfItem_def)
qed

lemma mountComponent_fault:
  "(mountComponent c num got = Inl e) = (bestInit num got = Inl e)"
  by (cases got) (simp_all add: mountComponent_def bestInit_def)

lemma mountComponent_best:
  "mountComponent c num got = Inr s \<Longrightarrow> bestInit num got = Inr (Fin (best s))"
proof (cases got)
  case (Inl e)
  assume "mountComponent c num got = Inr s"
  with Inl show ?thesis by (simp add: mountComponent_def)
next
  case (Inr item)
  assume m: "mountComponent c num got = Inr s"
  obtain v where v: "bestOfItem num item = Fin v"
    using bestOfItem_finite [of num item] by blast
  from m Inr have "s = mount c num item" by (simp add: mountComponent_def)
  then have "best s = v"
    by (simp add: mount_def resetGame_def requestLoop_def Let_def v)
  with Inr v show ?thesis by (simp add: bestInit_def)
qed




subsection \<open>What each block of the update changes\<close>

lemma movePipes_fields:
  "pipes (movePipes c dt s) = map (\<lambda>p. p\<lparr> x := x p - pipeSpeed c * dt \<rparr>) (pipes s)"
  "birdY (movePipes c dt s) = birdY s"
  "birdVY (movePipes c dt s) = birdVY s"
  "lastSpawn (movePipes c dt s) = lastSpawn s"
  "passedPipeIndex (movePipes c dt s) = passedPipeIndex s"
  by (simp_all add: movePipes_def)

lemma spawnPipe_fields:
  "pipes (spawnPipe c canvasH r s)
     = pipes s @ [\<lparr> x = w c + 40, topH = 60 + r * (canvasH - groundH c - pipeGap c - 60 - 60) \<rparr>]"
  "birdY (spawnPipe c canvasH r s) = birdY s"
  "birdVY (spawnPipe c canvasH r s) = birdVY s"
  "lastSpawn (spawnPipe c canvasH r s) = lastSpawn s"
  "passedPipeIndex (spawnPipe c canvasH r s) = passedPipeIndex s"
  by (simp_all add: spawnPipe_def Let_def)

lemma spawnStep_fields:
  "pipes (spawnStep c dt r s)
     = pipes s @ (if lastSpawn s + dt * 1000 \<ge> spawnEvery c
                  then [\<lparr> x = w c + 40, topH = 60 + r * (h c - groundH c - pipeGap c - 60 - 60) \<rparr>]
                  else [])"
  "lastSpawn (spawnStep c dt r s)
     = (if lastSpawn s + dt * 1000 \<ge> spawnEvery c then 0 else lastSpawn s + dt * 1000)"
  "birdY (spawnStep c dt r s) = birdY s"
  "birdVY (spawnStep c dt r s) = birdVY s"
  "passedPipeIndex (spawnStep c dt r s) = passedPipeIndex s"
  by (simp_all add: spawnStep_def spawnPipe_fields Let_def)

lemma pruneLoop_dropWhile:
  "fst (pruneLoop c ps k) = dropWhile (\<lambda>p. x p + pipeW c < 0) ps"
  by (induction ps arbitrary: k) simp_all

lemma prune_fields:
  "pipes (prune c s) = dropWhile (\<lambda>p. x p + pipeW c < 0) (pipes s)"
  "birdY (prune c s) = birdY s"
  "birdVY (prune c s) = birdVY s"
  "lastSpawn (prune c s) = lastSpawn s"
  using pruneLoop_dropWhile [of c "pipes s" "passedPipeIndex s"]
  by (cases "pruneLoop c (pipes s) (passedPipeIndex s)"; simp add: prune_def)+

lemma scoring_fields:
  "pipes (scoring c s) = pipes s"
  "birdY (scoring c s) = birdY s"
  "birdVY (scoring c s) = birdVY s"
  "lastSpawn (scoring c s) = lastSpawn s"
  "gameOver (scoring c s) = gameOver s"
  by (simp_all add: scoring_def Let_def split: list.split)

lemma boundsCollision_fields:
  "pipes (boundsCollision c s) = pipes s"
  "birdY (boundsCollision c s) = birdY s"
  "birdVY (boundsCollision c s) = birdVY s"
  "lastSpawn (boundsCollision c s) = lastSpawn s"
  "scoreRef (boundsCollision c s) = scoreRef s"
  "best (boundsCollision c s) = best s"
  by (simp_all add: boundsCollision_def)

lemma pipeCollision_fields:
  "pipes (pipeCollision c s) = pipes s"
  "birdY (pipeCollision c s) = birdY s"
  "birdVY (pipeCollision c s) = birdVY s"
  "lastSpawn (pipeCollision c s) = lastSpawn s"
  "scoreRef (pipeCollision c s) = scoreRef s"
  "best (pipeCollision c s) = best s"
  by (simp_all add: pipeCollision_def)

lemma updateBest_fields:
  "pipes (updateBest b s) = pipes s"
  "birdY (updateBest b s) = birdY s"
  "birdVY (updateBest b s) = birdVY s"
  "lastSpawn (updateBest b s) = lastSpawn s"
  "scoreRef (updateBest b s) = scoreRef s"
  "gameOver (updateBest b s) = gameOver s"
  by (simp_all add: updateBest_def)

lemmas block_fields =
  physics_fields movePipes_fields spawnStep_fields prune_fields scoring_fields
  boundsCollision_fields pipeCollision_fields updateBest_fields

text \<open>The fields no block of the update touches.\<close>

lemma physics_frame:
  "gameStarted (physics c dt s) = gameStarted s"
  "paused (physics c dt s) = paused s"
  "gameOver (physics c dt s) = gameOver s"
  "lastTime (physics c dt s) = lastTime s"
  "rafRef (physics c dt s) = rafRef s"
  "pending (physics c dt s) = pending s"
  "mountBest (physics c dt s) = mountBest s"
  "scoreRef (physics c dt s) = scoreRef s"
  "score (physics c dt s) = score s"
  "best (physics c dt s) = best s"
  by (simp_all add: physics_def)

lemma movePipes_frame:
  "gameStarted (movePipes c dt s) = gameStarted s"
  "paused (movePipes c dt s) = paused s"
  "gameOver (movePipes c dt s) = gameOver s"
  "lastTime (movePipes c dt s) = lastTime s"
  "rafRef (movePipes c dt s) = rafRef s"
  "pending (movePipes c dt s) = pending s"
  "mountBest (movePipes c dt s) = mountBest s"
  "scoreRef (movePipes c dt s) = scoreRef s"
  "score (movePipes c dt s) = score s"
  "best (movePipes c dt s) = best s"
  by (simp_all add: movePipes_def)

lemma spawnStep_frame:
  "gameStarted (spawnStep c dt r s) = gameStarted s"
  "paused (spawnStep c dt r s) = paused s"
  "gameOver (spawnStep c dt r s) = gameOver s"
  "lastTime (spawnStep c dt r s) = lastTime s"
  "rafRef (spawnStep c dt r s) = rafRef s"
  "pending (spawnStep c dt r s) = pending s"
  "mountBest (spawnStep c dt r s) = mountBest s"
  "scoreRef (spawnStep c dt r s) = scoreRef s"
  "score (spawnStep c dt r s) = score s"
  "best (spawnStep c dt r s) = best s"
  by (simp_all add: spawnStep_def spawnPipe_def Let_def)

lemma prune_frame:
  "gameStarted (prune c s) = gameStarted s"
  "paused (prune c s) = paused s"
  "gameOver (prune c s) = gameOver s"
  "lastTime (prune c s) = lastTime s"
  "rafRef (prune c s) = rafRef s"
  "pending (prune c s) = pending s"
  "mountBest (prune c s) = mountBest s"
  "scoreRef (prune c s) = scoreRef s"
  "score (prune c s) = score s"
  "best (prune c s) = best s"
  by (simp_all add: prune_def split: prod.split)

lemma scoring_frame:
  "gameStarted (scoring c s) = gameStarted s"
  "paused (scoring c s) = paused s"
  "lastTime (scoring c s) = lastTime s"
  "rafRef (scoring c s) = rafRef s"
  "pending (scoring c s) = pending s"
  "mountBest (scoring c s) = mountBest s"
  "best (scoring c s) = best s"
  by (simp_all add: scoring_def Let_def split: list.split)

lemma boundsCollision_frame:
  "gameStarted (boundsCollision c s) = gameStarted s"
  "paused (boundsCollision c s) = paused s"
  "lastTime (boundsCollision c s) = lastTime s"
  "rafRef (boundsCollision c s) = rafRef s"
  "pending (boundsCollision c s) = pending s"
  "mountBest (boundsCollision c s) = mountBest s"
  "score (boundsCollision c s) = score s"
  by (simp_all add: boundsCollision_def)

lemma pipeCollision_frame:
  "gameStarted (pipeCollision c s) = gameStarted s"
  "paused (pipeCollision c s) = paused s"
  "lastTime (pipeCollision c s) = lastTime s"
  "rafRef (pipeCollision c s) = rafRef s"
  "pending (pipeCollision c s) = pending s"
  "mountBest (pipeCollision c s) = mountBest s"
  "score (pipeCollision c s) = score s"
  by (simp_all add: pipeCollision_def)

lemma updateBest_frame:
  "gameStarted (updateBest b s) = gameStarted s"
  "paused (updateBest b s) = paused s"
  "lastTime (updateBest b s) = lastTime s"
  "rafRef (updateBest b s) = rafRef s"
  "pending (updateBest b s) = pending s"
  "mountBest (updateBest b s) = mountBest s"
  "score (updateBest b s) = score s"
  by (simp_all add: updateBest_def)

lemmas block_frame =
  physics_frame movePipes_frame spawnStep_frame prune_frame scoring_frame
  boundsCollision_frame pipeCollision_frame updateBest_frame

lemma draw_unfold:
  "draw b c dt r s =
     (if gameStarted s \<and> \<not> paused s \<and> \<not> gameOver s
      then updateBest b (pipeCollision c (boundsCollision c (scoring c (prune c
             (spawnStep c dt r (movePipes c dt (physics c dt s)))))))
      else s)"
  by (simp add: draw_def Let_def)

lemma draw_frame:
  "gameStarted (draw b c dt r s) = gameStarted s"
  "paused (draw b c dt r s) = paused s"
  "lastTime (draw b c dt r s) = lastTime s"
  "rafRef (draw b c dt r s) = rafRef s"
  "pending (draw b c dt r s) = pending s"
  "mountBest (draw b c dt r s) = mountBest s"
  by (simp_all add: draw_unfold block_frame)

lemma draw_idle:
  "\<not> gameStarted s \<or> paused s \<or> gameOver s \<Longrightarrow> draw b c dt r s = s"
  by (auto simp: draw_unfold)

lemma draw_running:
  assumes "gameStarted s" and "\<not> paused s" and "\<not> gameOver s"
  shows "draw b c dt r s =
     updateBest b (pipeCollision c (boundsCollision c (scoring c (prune c
       (spawnStep c dt r (movePipes c dt (physics c dt s)))))))"
  using assms by (simp add: draw_unfold)

lemma draw_pipes:
  "pipes (draw b c dt r s) =
     (if gameStarted s \<and> \<not> paused s \<and> \<not> gameOver s
      then dropWhile (\<lambda>p. x p + pipeW c < 0)
             (map (\<lambda>p. p\<lparr> x := x p - pipeSpeed c * dt \<rparr>) (pipes s) @
              (if lastSpawn s + dt * 1000 \<ge> spawnEvery c
               then [\<lparr> x = w c + 40, topH = 60 + r * (h c - groundH c - pipeGap c - 60 - 60) \<rparr>]
               else []))
      else pipes s)"
proof (cases "gameStarted s \<and> \<not> paused s \<and> \<not> gameOver s")
  case True
  then show ?thesis by (simp add: draw_running block_fields)
next
  case False
  then have "draw b c dt r s = s" by (intro draw_idle) auto
  with False show ?thesis by auto
qed

lemma draw_paused:
  "paused s \<Longrightarrow> draw b c dt r (s\<lparr> lastTime := ts \<rparr>) = s\<lparr> lastTime := ts \<rparr>"
  by (simp add: draw_idle)

lemma loop_fields:
  "paused (loop b c ts r s) = paused s"
  "gameStarted (loop b c ts r s) = gameStarted s"
  "mountBest (loop b c ts r s) = mountBest s"
  "pipes (loop b c ts r s) = pipes (draw b c (frameDt ts s) r (s\<lparr> lastTime := ts \<rparr>))"
  "birdY (loop b c ts r s) = birdY (draw b c (frameDt ts s) r (s\<lparr> lastTime := ts \<rparr>))"
  "birdVY (loop b c ts r s) = birdVY (draw b c (frameDt ts s) r (s\<lparr> lastTime := ts \<rparr>))"
  "lastSpawn (loop b c ts r s) = lastSpawn (draw b c (frameDt ts s) r (s\<lparr> lastTime := ts \<rparr>))"
  "scoreRef (loop b c ts r s) = scoreRef (draw b c (frameDt ts s) r (s\<lparr> lastTime := ts \<rparr>))"
  "score (loop b c ts r s) = score (draw b c (frameDt ts s) r (s\<lparr> lastTime := ts \<rparr>))"
  "best (loop b c ts r s) = best (draw b c (frameDt ts s) r (s\<lparr> lastTime := ts \<rparr>))"
  "gameOver (loop b c ts r s) = gameOver (draw b c (frameDt ts s) r (s\<lparr> lastTime := ts \<rparr>))"
  by (cases "paused s"; simp add: loop_def Let_def requestLoop_def draw_frame draw_paused)+

lemma flap_fields:
  "pipes (flap c s) = pipes s"
  "birdY (flap c s) = birdY s"
  "lastSpawn (flap c s) = lastSpawn s"
  "gameOver (flap c s) = gameOver s"
  "rafRef (flap c s) = rafRef s"
  "scoreRef (flap c s) = scoreRef s"
  "best (flap c s) = best s"
  "mountBest (flap c s) = mountBest s"
  by (simp_all add: flap_def Let_def)

lemma togglePause_fields:
  "pipes (togglePause b s) = pipes s"
  "birdY (togglePause b s) = birdY s"
  "birdVY (togglePause b s) = birdVY s"
  "lastSpawn (togglePause b s) = lastSpawn s"
  "gameOver (togglePause b s) = gameOver s"
  "gameStarted (togglePause b s) = gameStarted s"
  "scoreRef (togglePause b s) = scoreRef s"
  "best (togglePause b s) = best s"
  "mountBest (togglePause b s) = mountBest s"
  by (simp_all add: togglePause_def requestLoop_def Let_def)

subsection \<open>Pruning\<close>

lemma dropWhile_sorted_filter:
  "sorted (map x ps) \<Longrightarrow>
   dropWhile (\<lambda>p. x p + d < 0) ps = filter (\<lambda>p. \<not> x p + d < 0) ps"
proof (induction ps)
  case Nil
  then show ?case by simp
next
  case (Cons p ps)
  show ?case
  proof (cases "x p + d < 0")
    case True
    with Cons show ?thesis by simp
  next
    case False
    have "\<forall>q \<in> set ps. \<not> x q + d < 0"
      using Cons.prems False by fastforce
    then have "filter (\<lambda>q. \<not> x q + d < 0) ps = ps"
      by (simp add: filter_id_conv)
    with False show ?thesis by simp
  qed
qed

text \<open>
  C5. The \<open>while\<close> loop of lines 161-164 drops the longest prefix of pipes whose right
  edge \<open>x + pipeW\<close> is left of 0 and nothing else. On a sequence ordered by position
  (oldest, leftmost first) these are all the off-screen pipes, one element each. No other
  code shortens the sequence during a run: \<open>flap\<close> and \<open>togglePause\<close> leave it alone,
  and a tick yields the moved pipes, with the new pipe appended if one is spawned, less
  the pruned prefix.
\<close>

theorem prune_drops_leading_offscreen:
  "pipes (prune c s) = dropWhile (\<lambda>p. x p + pipeW c < 0) (pipes s)
   \<and> (sorted (map x (pipes s)) \<longrightarrow>
        pipes (prune c s) = filter (\<lambda>p. \<not> x p + pipeW c < 0) (pipes s)
        \<and> length (pipes (prune c s)) + length (filter (\<lambda>p. x p + pipeW c < 0) (pipes s))
            = length (pipes s))
   \<and> pipes (flap c s) = pipes s
   \<and> pipes (togglePause b s) = pipes s
   \<and> pipes (loop b c ts r s) =
       (if gameStarted s \<and> \<not> paused s \<and> \<not> gameOver s
        then dropWhile (\<lambda>p. x p + pipeW c < 0)
               (map (\<lambda>p. p\<lparr> x := x p - pipeSpeed c * frameDt ts s \<rparr>) (pipes s) @
                (if lastSpawn s + frameDt ts s * 1000 \<ge> spawnEvery c
                 then [\<lparr> x = w c + 40,
                         topH = 60 + r * (h c - groundH c - pipeGap c - 60 - 60) \<rparr>]
                 else []))
        else pipes s)"
proof -
  have a: "pipes (prune c s) = dropWhile (\<lambda>p. x p + pipeW c < 0) (pipes s)"
    by (rule prune_fields)
  have b: "pipes (prune c s) = filter (\<lambda>p. \<not> x p + pipeW c < 0) (pipes s)"
    if "sorted (map x (pipes s))"
    using that a by (simp add: dropWhile_sorted_filter)
  have c: "length (filter (\<lambda>p. \<not> x p + pipeW c < 0) (pipes s))
             + length (filter (\<lambda>p. x p + pipeW c < 0) (pipes s)) = length (pipes s)"
    using sum_length_filter_compl [of "\<lambda>p. x p + pipeW c < 0" "pipes s"] by simp
  have d: "pipes (loop b c ts r s) =
       (if gameStarted s \<and> \<not> paused s \<and> \<not> gameOver s
        then dropWhile (\<lambda>p. x p + pipeW c < 0)
               (map (\<lambda>p. p\<lparr> x := x p - pipeSpeed c * frameDt ts s \<rparr>) (pipes s) @
                (if lastSpawn s + frameDt ts s * 1000 \<ge> spawnEvery c
                 then [\<lparr> x = w c + 40,
                         topH = 60 + r * (h c - groundH c - pipeGap c - 60 - 60) \<rparr>]
                 else []))
        else pipes s)"
    by (simp add: loop_fields draw_pipes)
  show ?thesis
    using a b c d by (simp add: flap_fields togglePause_fields)
qed

theorem prune_drops_leading_offscreen_witness:
  "sorted (map x [\<lparr> x = - 80, topH = 100 \<rparr>, \<lparr> x = 130, topH = 200 \<rparr>]) \<and>
   pipes (prune cfg (mount cfg (\<lambda>str. NaN) None
            \<lparr> pipes := [\<lparr> x = - 80, topH = 100 \<rparr>, \<lparr> x = 130, topH = 200 \<rparr>] \<rparr>))
     = [\<lparr> x = 130, topH = 200 \<rparr>]"
  using prune_drops_leading_offscreen [of cfg
      "mount cfg (\<lambda>str. NaN) None
         \<lparr> pipes := [\<lparr> x = - 80, topH = 100 \<rparr>, \<lparr> x = 130, topH = 200 \<rparr>] \<rparr>"]
  by (simp add: cfg_def)

subsection \<open>Ticks while paused or not started\<close>

text \<open>
  C8. A tick on a paused game returns at line 279 before anything is touched. A tick
  before the first flap stores the timestamp and skips the update of \<open>draw\<close>. In both
  cases the bird, the pipes, the score and the spawn accumulator are what they were,
  whatever timestamp and random draw the tick carries.
\<close>

theorem idle_tick_keeps_game:
  assumes "paused s \<or> \<not> gameStarted s"
  shows "birdY (loop b c ts r s) = birdY s \<and> birdVY (loop b c ts r s) = birdVY s
       \<and> pipes (loop b c ts r s) = pipes s
       \<and> scoreRef (loop b c ts r s) = scoreRef s \<and> score (loop b c ts r s) = score s
       \<and> lastSpawn (loop b c ts r s) = lastSpawn s"
proof -
  have "draw b c (frameDt ts s) r (s\<lparr> lastTime := ts \<rparr>) = s\<lparr> lastTime := ts \<rparr>"
    using assms by (intro draw_idle) auto
  then show ?thesis by (simp add: loop_fields)
qed

theorem idle_tick_keeps_game_witness:
  "\<not> gameStarted (mount cfg (\<lambda>str. NaN) None) \<and>
   birdY (loop 0 cfg 5000 (1 / 2) (mount cfg (\<lambda>str. NaN) None)) = 320 \<and>
   pipes (loop 0 cfg 5000 (1 / 2) (mount cfg (\<lambda>str. NaN) None)) = [] \<and>
   paused (togglePause 0 (flap cfg (mount cfg (\<lambda>str. NaN) None))) \<and>
   birdVY (loop 0 cfg 5000 (1 / 2) (togglePause 0 (flap cfg (mount cfg (\<lambda>str. NaN) None))))
     = - 420"
  using idle_tick_keeps_game [of "mount cfg (\<lambda>str. NaN) None" 0 cfg 5000 "1 / 2"]
    idle_tick_keeps_game [of "togglePause 0 (flap cfg (mount cfg (\<lambda>str. NaN) None))"
      0 cfg 5000 "1 / 2"]
  by (simp add: mount_fields togglePause_def flap_def Let_def cfg_def)

subsection \<open>Sessions and what holds in every state of one\<close>

lemma reach_fold: "reach s \<Longrightarrow> reach (fold (handle cfg) es s)"
  by (induction es arbitrary: s) (simp_all add: reach_handle)

lemma reach_session: "reach (session cfg num item es)"
  by (simp add: session_def reach_fold reach_mount)

lemma dropWhile_head: "case dropWhile P xs of [] \<Rightarrow> True | y # ys \<Rightarrow> \<not> P y"
  by (induction xs) simp_all

lemma inv_mount: "sessionInv (mount cfg num item)"
  by (simp add: sessionInv_def mount_fields cfg_def)

lemma inv_requestLoop: "sessionInv s \<Longrightarrow> sessionInv (requestLoop b s)"
  by (simp add: sessionInv_def requestLoop_def)

lemma inv_resetGame: "sessionInv (requestLoop b (resetGame cfg s))"
  by (simp add: sessionInv_def requestLoop_def resetGame_def cfg_def)

lemma inv_flap: "sessionInv s \<Longrightarrow> sessionInv (flap cfg s)"
  by (auto simp: sessionInv_def flap_def Let_def)

lemma inv_togglePause: "sessionInv s \<Longrightarrow> sessionInv (togglePause b s)"
  by (auto simp: sessionInv_def togglePause_def requestLoop_def Let_def)

lemma draw_lastSpawn:
  "lastSpawn (draw b c dt r s) =
     (if gameStarted s \<and> \<not> paused s \<and> \<not> gameOver s
      then (if lastSpawn s + dt * 1000 \<ge> spawnEvery c then 0 else lastSpawn s + dt * 1000)
      else lastSpawn s)"
  by (simp add: draw_unfold block_fields)

lemma inv_draw:
  assumes "sessionInv s"
  shows "sessionInv (draw b cfg dt r s)"
proof (cases "gameStarted s \<and> \<not> paused s \<and> \<not> gameOver s")
  case True
  have "lastSpawn (draw b cfg dt r s) < spawnEvery cfg"
    using True by (simp add: draw_lastSpawn) (simp add: cfg_def)
  moreover have "case pipes (draw b cfg dt r s) of [] \<Rightarrow> True
                 | p # ps \<Rightarrow> \<not> x p + pipeW cfg < 0"
    using True by (simp add: draw_pipes dropWhile_head)
  ultimately show ?thesis
    using True assms by (simp add: sessionInv_def draw_frame)
next
  case False
  then have "draw b cfg dt r s = s" by (intro draw_idle) auto
  with assms show ?thesis by simp
qed

lemma inv_loop:
  assumes "sessionInv s"
  shows "sessionInv (loop b cfg ts r s)"
proof -
  have "sessionInv (s\<lparr> lastTime := ts \<rparr>)"
    using assms by (simp add: sessionInv_def)
  then have "sessionInv (draw b cfg (frameDt ts s) r (s\<lparr> lastTime := ts \<rparr>))"
    by (rule inv_draw)
  then show ?thesis
    using assms by (simp add: loop_def Let_def inv_requestLoop)
qed

lemma inv_runCallbacks:
  "sessionInv s \<Longrightarrow> sessionInv (runCallbacks cfg ts rnd i bs s)"
  by (induction bs arbitrary: i s) (simp_all add: inv_loop)

lemma inv_frame: "sessionInv s \<Longrightarrow> sessionInv (frame cfg ts rnd s)"
  unfolding frame_def by (rule inv_runCallbacks) (simp add: sessionInv_def)

lemma inv_handle: "sessionInv s \<Longrightarrow> sessionInv (handle cfg e s)"
  by (cases e)
     (simp_all add: Let_def inv_flap inv_togglePause inv_requestLoop inv_resetGame inv_frame)

lemma reach_inv: "reach s \<Longrightarrow> sessionInv s"
  by (induction rule: reach.induct) (simp_all add: inv_mount inv_handle)

subsection \<open>Game over\<close>

lemma loop_over: "gameOver s \<Longrightarrow> gameOver (loop b c ts r s)"
  by (simp add: loop_fields draw_idle)

lemma runCallbacks_over: "gameOver s \<Longrightarrow> gameOver (runCallbacks c ts rnd i bs s)"
  by (induction bs arbitrary: i s) (simp_all add: loop_over)

lemma handle_over:
  assumes "gameOver s"
  shows "gameOver (handle c e s) \<longleftrightarrow> e \<noteq> KeyR \<and> e \<noteq> ClickRestart"
proof (cases e)
  case (Frame ts rnd)
  have "gameOver (runCallbacks c ts rnd 0 (pending s) (s\<lparr> pending := [] \<rparr>))"
    using assms by (intro runCallbacks_over) simp
  with Frame show ?thesis by (simp add: frame_def)
qed (use assms in \<open>simp_all add: Let_def flap_fields togglePause_fields
      requestLoop_def resetGame_def\<close>)

text \<open>
  C6. In every reachable state with the game over: \<open>flap\<close> and both flap events return
  the state as it is, and so does \<open>togglePause\<close>; a tick stores its timestamp and
  changes nothing else; the game is still over after every event but the two resets;
  and \<open>resetGame\<close> clears \<open>gameOver\<close> and \<open>gameStarted\<close>.
\<close>

theorem over_is_left_by_reset_only:
  assumes "reach s" and "gameOver s"
  shows "flap cfg s = s \<and> handle cfg KeySpace s = s \<and> handle cfg PointerDown s = s
       \<and> togglePause b s = s
       \<and> loop b cfg ts r s = s\<lparr> lastTime := ts \<rparr>
       \<and> (gameOver (handle cfg e s) \<longleftrightarrow> e \<noteq> KeyR \<and> e \<noteq> ClickRestart)
       \<and> \<not> gameOver (resetGame cfg s) \<and> \<not> gameStarted (resetGame cfg s)"
proof -
  from assms have st: "gameStarted s" and np: "\<not> paused s" and raf: "rafRef s \<noteq> 0"
    using reach_inv [of s] by (simp_all add: sessionInv_def)
  have f: "flap cfg s = s"
    using assms(2) st by (simp add: flap_def Let_def)
  have k: "handle cfg KeySpace s = s" "handle cfg PointerDown s = s"
    using f raf by (simp_all add: Let_def)
  have p: "togglePause b s = s"
    using assms(2) by (simp add: togglePause_def)
  have "draw b cfg (frameDt ts s) r (s\<lparr> lastTime := ts \<rparr>) = s\<lparr> lastTime := ts \<rparr>"
    using assms(2) by (intro draw_idle) simp
  then have l: "loop b cfg ts r s = s\<lparr> lastTime := ts \<rparr>"
    using assms(2) np by (simp add: loop_def Let_def)
  have r: "\<not> gameOver (resetGame cfg s)" "\<not> gameStarted (resetGame cfg s)"
    by (simp_all add: resetGame_def)
  show ?thesis
    using f k p l r handle_over [OF assms(2)] by simp
qed

subsection \<open>The first tick after the time reference is cleared\<close>

lemma frameDt_zero: "lastTime s = 0 \<Longrightarrow> frameDt ts s = 0"
  by (simp add: frameDt_def)

lemma draw_zero_dt:
  assumes "sessionInv s"
  shows "birdY (draw b cfg 0 r s) = birdY s" and "birdVY (draw b cfg 0 r s) = birdVY s"
    and "pipes (draw b cfg 0 r s) = pipes s"
proof -
  show "birdY (draw b cfg 0 r s) = birdY s" and "birdVY (draw b cfg 0 r s) = birdVY s"
    by (simp_all add: draw_unfold block_fields)
  have "dropWhile (\<lambda>p. x p + pipeW cfg < 0) (pipes s) = pipes s"
    using assms by (cases "pipes s") (simp_all add: sessionInv_def)
  then show "pipes (draw b cfg 0 r s) = pipes s"
    using assms by (simp add: draw_pipes sessionInv_def)
qed

text \<open>
  C10. \<open>resetGame\<close> and a resuming \<open>togglePause\<close> set the time reference to 0. In every
  reachable state whose time reference is 0, the tick computes \<open>dt = 0\<close> whatever its
  timestamp is, and leaves the bird's position and velocity and the whole pipe sequence
  (so every pipe's position) as they were.
\<close>

theorem zero_reference_tick:
  assumes "reach s" and "lastTime s = 0"
  shows "frameDt ts s = 0
       \<and> birdY (loop b cfg ts r s) = birdY s \<and> birdVY (loop b cfg ts r s) = birdVY s
       \<and> pipes (loop b cfg ts r s) = pipes s
       \<and> lastTime (resetGame cfg u) = 0
       \<and> (gameStarted u \<and> \<not> gameOver u \<and> paused u \<longrightarrow>
            lastTime (togglePause b u) = 0 \<and> \<not> paused (togglePause b u))"
proof -
  have "sessionInv (s\<lparr> lastTime := ts \<rparr>)"
    using reach_inv [OF assms(1)] by (simp add: sessionInv_def)
  from draw_zero_dt [OF this] show ?thesis
    using assms(2)
    by (simp add: frameDt_zero loop_fields resetGame_def togglePause_def requestLoop_def
        Let_def)
qed

subsection \<open>Running the sessions\<close>

lemmas run_defs =
  mount_def frame_def loop_def draw_def frameDt_def updateBest_def pipeCollision_def
  boundsCollision_def scoring_def prune_def spawnStep_def movePipes_def physics_def
  collides_def circleRect_def spawnPipe_def togglePause_def requestLoop_def flap_def
  resetGame_def bestOfItem_def cfg_def frames.simps play.simps digitsOf.simps Let_def

lemma session_append:
  "session c num item (es @ es') = fold (handle c) es' (session c num item es)"
  by (simp add: session_def)

lemma session_warmup: "session cfg (\<lambda>str. NaN) None warmup = afterWarmup"
  by (simp add: session_def warmup_def afterWarmup_def run_defs cong: let_weak_cong)

lemma session_firstRun: "session cfg (\<lambda>str. NaN) None firstRun = afterFirstRun"
  by (simp add: firstRun_def session_append session_warmup)
     (simp add: afterWarmup_def afterFirstRun_def run_defs cong: let_weak_cong)

lemma session_secondRun:
  "session cfg (\<lambda>str. NaN) None (firstRun @ secondRun) = afterSecondRun"
  by (simp add: session_append session_firstRun)
     (simp add: secondRun_def afterFirstRun_def afterSecondRun_def run_defs
        cong: let_weak_cong)

text \<open>
  The mechanism behind the next theorem: once the right edge of the first pipe is left
  of \<open>birdX - birdR\<close>, a call of the scoring block that finds the flag cleared counts
  the pipe and clears the flag again.
\<close>

lemma scoring_counts_again:
  assumes "pipes s = p # ps" and "x p + pipeW c < birdX c - birdR c" and "0 \<le> birdR c"
    and "passedPipeIndex s = 0"
  shows "scoreRef (scoring c s) = scoreRef s + 1 \<and> passedPipeIndex (scoring c s) = 0"
  using assms by (simp add: scoring_def Let_def)

text \<open>
  C1 fails on the code. In the session below three pipes are spawned and only the first
  one reaches the bird. Twenty frames after the tenth press that pipe is still the first
  of the sequence, its right edge at 4.7, and the score is 15; one frame later it is
  pruned, the two pipes left are to the right of the bird, and the score is 15. The
  flag \<open>passedPipeIndex\<close> is cleared by line 178 in every frame in which the right edge
  of the first pipe is left of \<open>birdX - birdR\<close>, so line 173 counts the pipe again in
  the next frame.
\<close>

theorem one_pipe_scores_fifteen:
  "scoreRef (session cfg (\<lambda>str. NaN) None (warmup @ KeySpace # frames 4861 20)) = 15
   \<and> pipes (session cfg (\<lambda>str. NaN) None (warmup @ KeySpace # frames 4861 20))
       = [\<lparr> x = - 653 / 10, topH = 200 \<rparr>, \<lparr> x = 2951 / 20, topH = 200 \<rparr>,
          \<lparr> x = 1802 / 5, topH = 200 \<rparr>]
   \<and> scoreRef (session cfg (\<lambda>str. NaN) None (warmup @ KeySpace # frames 4861 21)) = 15
   \<and> pipes (session cfg (\<lambda>str. NaN) None (warmup @ KeySpace # frames 4861 21))
       = [\<lparr> x = 713 / 5, topH = 200 \<rparr>, \<lparr> x = 7109 / 20, topH = 200 \<rparr>]
   \<and> \<not> gameOver (session cfg (\<lambda>str. NaN) None (warmup @ KeySpace # frames 4861 21))"
  by (simp add: session_append session_warmup)
     (simp add: afterWarmup_def run_defs cong: let_weak_cong)

lemma updateBest_stale:
  "gameOver s \<Longrightarrow> b < real (scoreRef s) \<Longrightarrow> best (updateBest b s) = real (scoreRef s)"
  by (simp add: updateBest_def)

lemma updateBest_current:
  "gameOver s \<Longrightarrow> best (updateBest (best s) s) = max (best s) (real (scoreRef s))"
  by (simp add: updateBest_def max_def)

lemma session_secondRunByButton:
  "session cfg (\<lambda>str. NaN) None (firstRun @ secondRunByButton)
     = afterSecondRun \<lparr> best := 15, flappy_best := Some ''15'' \<rparr>"
  by (simp add: session_append session_firstRun)
     (simp add: secondRunByButton_def afterFirstRun_def afterSecondRun_def run_defs
        cong: let_weak_cong)

text \<open>
  C2 fails on the code. The first run ends with score 15, which becomes the best score
  and is stored. The key R restarts through the key handler of the first render, whose
  \<open>draw\<close> still compares with the best score of that render, 0. The second run ends
  with score 1, and line 199 finds \<open>1 > 0\<close>: the best score drops from 15 to 1, in the
  React state and in the storage. Where \<open>draw\<close> sees the current best score the update
  is the maximum, and the same second run restarted with the button keeps 15.
\<close>

theorem restart_by_key_lowers_best:
  "best (session cfg (\<lambda>str. NaN) None firstRun) = 15
   \<and> flappy_best (session cfg (\<lambda>str. NaN) None firstRun) = Some ''15''
   \<and> gameOver (session cfg (\<lambda>str. NaN) None (firstRun @ secondRun))
   \<and> scoreRef (session cfg (\<lambda>str. NaN) None (firstRun @ secondRun)) = 1
   \<and> best (session cfg (\<lambda>str. NaN) None (firstRun @ secondRun)) = 1
   \<and> flappy_best (session cfg (\<lambda>str. NaN) None (firstRun @ secondRun)) = Some ''1''"
  by (simp add: session_firstRun session_secondRun afterFirstRun_def afterSecondRun_def)

text \<open>The state after the first run is a reachable state with the game over.\<close>

theorem over_is_left_by_reset_only_witness:
  "reach (session cfg (\<lambda>str. NaN) None firstRun)
   \<and> gameOver (session cfg (\<lambda>str. NaN) None firstRun)
   \<and> flap cfg (session cfg (\<lambda>str. NaN) None firstRun)
       = session cfg (\<lambda>str. NaN) None firstRun
   \<and> togglePause 15 (session cfg (\<lambda>str. NaN) None firstRun)
       = session cfg (\<lambda>str. NaN) None firstRun
   \<and> loop 15 cfg 7000 (1 / 2) (session cfg (\<lambda>str. NaN) None firstRun)
       = session cfg (\<lambda>str. NaN) None firstRun \<lparr> lastTime := 7000 \<rparr>
   \<and> gameOver (handle cfg KeyP (session cfg (\<lambda>str. NaN) None firstRun))
   \<and> \<not> gameOver (handle cfg KeyR (session cfg (\<lambda>str. NaN) None firstRun))"
proof -
  have r: "reach (session cfg (\<lambda>str. NaN) None firstRun)"
    by (rule reach_session)
  have g: "gameOver (session cfg (\<lambda>str. NaN) None firstRun)"
    by (simp add: session_firstRun afterFirstRun_def)
  show ?thesis
    using r g over_is_left_by_reset_only [OF r g, of 15 7000 "1 / 2" KeyP]
      over_is_left_by_reset_only [OF r g, of 15 7000 "1 / 2" KeyR]
    by simp
qed

text \<open>
  Pausing and resuming after the warm-up gives a reachable running state with two pipes
  whose time reference is 0.
\<close>

theorem zero_reference_tick_witness:
  "reach (session cfg (\<lambda>str. NaN) None (warmup @ [KeyP, KeyP]))
   \<and> lastTime (session cfg (\<lambda>str. NaN) None (warmup @ [KeyP, KeyP])) = 0
   \<and> \<not> paused (session cfg (\<lambda>str. NaN) None (warmup @ [KeyP, KeyP]))
   \<and> frameDt 4894 (session cfg (\<lambda>str. NaN) None (warmup @ [KeyP, KeyP])) = 0
   \<and> birdY (loop 0 cfg 4894 (1 / 2) (session cfg (\<lambda>str. NaN) None (warmup @ [KeyP, KeyP])))
       = 1518919 / 5000
   \<and> birdVY (loop 0 cfg 4894 (1 / 2) (session cfg (\<lambda>str. NaN) None (warmup @ [KeyP, KeyP])))
       = 1761 / 5
   \<and> pipes (loop 0 cfg 4894 (1 / 2) (session cfg (\<lambda>str. NaN) None (warmup @ [KeyP, KeyP])))
       = [\<lparr> x = 337 / 10, topH = 200 \<rparr>, \<lparr> x = 4931 / 20, topH = 200 \<rparr>]"
proof -
  have r: "reach (session cfg (\<lambda>str. NaN) None (warmup @ [KeyP, KeyP]))"
    by (rule reach_session)
  have s: "session cfg (\<lambda>str. NaN) None (warmup @ [KeyP, KeyP])
             = afterWarmup \<lparr> lastTime := 0, pending := [0, 0], rafRef := 120 \<rparr>"
    by (simp add: session_append session_warmup)
       (simp add: afterWarmup_def togglePause_def requestLoop_def Let_def)
  have z: "lastTime (session cfg (\<lambda>str. NaN) None (warmup @ [KeyP, KeyP])) = 0"
    by (simp add: s)
  show ?thesis
    using r z zero_reference_tick [OF r z, of 4894 0 "1 / 2"]
    by (simp add: s afterWarmup_def)
qed

lemma resetGame_resets:
  "scoreRef (resetGame c s) = 0 \<and> score (resetGame c s) = 0
   \<and> \<not> gameStarted (resetGame c s) \<and> \<not> gameOver (resetGame c s)
   \<and> pipes (resetGame c s) = [] \<and> birdY (resetGame c s) = h c / 2
   \<and> birdVY (resetGame c s) = 0 \<and> lastSpawn (resetGame c s) = 0
   \<and> passedPipeIndex (resetGame c s) = 0 \<and> best (resetGame c s) = best s
   \<and> paused (resetGame c s) = paused s"
  by (simp add: resetGame_def)

text \<open>
  C7 fails on the code: \<open>resetGame\<close> does not write \<open>pausedRef\<close>. A reset of a paused
  game leaves \<open>paused\<close> set while \<open>gameStarted\<close> is cleared. The frame requested by the
  reset then returns at line 279 without requesting another one, and the flap that
  starts the next run clears \<open>paused\<close> (line 64) but requests no frame, since \<open>rafRef\<close>
  is not \<open>null\<close>: the run has started and no callback is pending.
\<close>

theorem reset_keeps_paused:
  "paused (session cfg (\<lambda>str. NaN) None
            [Frame 1000 (\<lambda>i. 1 / 2), KeySpace, Frame 1033 (\<lambda>i. 1 / 2), KeyP, KeyR])
   \<and> \<not> gameStarted (session cfg (\<lambda>str. NaN) None
            [Frame 1000 (\<lambda>i. 1 / 2), KeySpace, Frame 1033 (\<lambda>i. 1 / 2), KeyP, KeyR])
   \<and> gameStarted (session cfg (\<lambda>str. NaN) None
            [Frame 1000 (\<lambda>i. 1 / 2), KeySpace, Frame 1033 (\<lambda>i. 1 / 2), KeyP, KeyR,
             Frame 1066 (\<lambda>i. 1 / 2), KeySpace])
   \<and> \<not> paused (session cfg (\<lambda>str. NaN) None
            [Frame 1000 (\<lambda>i. 1 / 2), KeySpace, Frame 1033 (\<lambda>i. 1 / 2), KeyP, KeyR,
             Frame 1066 (\<lambda>i. 1 / 2), KeySpace])
   \<and> pending (session cfg (\<lambda>str. NaN) None
            [Frame 1000 (\<lambda>i. 1 / 2), KeySpace, Frame 1033 (\<lambda>i. 1 / 2), KeyP, KeyR,
             Frame 1066 (\<lambda>i. 1 / 2), KeySpace]) = []"
  by (simp add: session_def run_defs cong: let_weak_cong)

end
